theory Spec2Isabelle
  imports Complex_Main
begin

section \<open>Python values, numpy arrays and exceptions\<close>

text \<open>
  The observation-point classes of \<^verbatim>\<open>off/observation_points.py\<close> keep their data in
  instance attributes (\<^verbatim>\<open>self.states\<close>, \<^verbatim>\<open>self.n_time_steps\<close>) that the base class
  \<^verbatim>\<open>States\<close> creates. An instance is modelled by its attribute dictionary, an
  attribute that was never assigned raises \<^verbatim>\<open>AttributeError\<close>.

  A two-dimensional numpy array is its number of columns together with its rows;
  the number of rows is the length of the row list.

  The entries are float64 in the program and real numbers here, and the products, sums,
  cosine and sine below are the exact ones: float64 rounding is outside this model. A
  product \<open>k * wind_speed\<close> stands for the product the program computes. Nothing is
  stated below that holds of exact arithmetic only: the properties proved either do not
  depend on how the arithmetic rounds (which columns are written, that a call returns,
  that two calls agree), or concern an input on which every float64 operation is exact.
\<close>

datatype error =
    AttributeError string
  | TypeError
  | IndexError
  | ValueError
  | ShapeMismatch

datatype ndarray = NDArray (ncols: nat) (rows: "real list list")

datatype pyval = PyInt int | PyArray ndarray

type_synonym pyobj = "string \<rightharpoonup> pyval"

definition and_then :: "error + 'a \<Rightarrow> ('a \<Rightarrow> error + 'b) \<Rightarrow> error + 'b" where
  "and_then r f = (case r of Inl e \<Rightarrow> Inl e | Inr x \<Rightarrow> f x)"

text \<open>\<^verbatim>\<open>self.name\<close>\<close>

definition getattr :: "pyobj \<Rightarrow> string \<Rightarrow> error + pyval" where
  "getattr self name =
     (case self name of None \<Rightarrow> Inl (AttributeError name) | Some v \<Rightarrow> Inr v)"

definition as_array :: "pyval \<Rightarrow> error + ndarray" where
  "as_array v = (case v of PyInt _ \<Rightarrow> Inl TypeError | PyArray a \<Rightarrow> Inr a)"

text \<open>\<^verbatim>\<open>np.zeros((n, w))\<close>\<close>

definition zeros :: "nat \<Rightarrow> nat \<Rightarrow> ndarray" where
  "zeros n w = NDArray w (replicate n (replicate w 0))"

text \<open>\<^verbatim>\<open>np.arange(n)\<close>: the numbers 0, 1, ..., n - 1, none when n is not positive.\<close>

definition arange :: "pyval \<Rightarrow> error + real list" where
  "arange v =
     (case v of PyInt n \<Rightarrow> Inr (map real [0..<nat n]) | PyArray _ \<Rightarrow> Inl TypeError)"

text \<open>\<^verbatim>\<open>rotor_pos[k]\<close> on a one-dimensional vector.\<close>

definition getitem :: "real list \<Rightarrow> nat \<Rightarrow> error + real" where
  "getitem v k = (if k < length v then Inr (v ! k) else Inl IndexError)"

text \<open>
  Assigning a vector to a column of n entries: numpy accepts a vector of n entries, and
  repeats the entry of a vector of one entry; any other length is a \<^verbatim>\<open>ValueError\<close>.
\<close>

definition broadcast :: "real list \<Rightarrow> nat \<Rightarrow> error + real list" where
  "broadcast v n =
     (if length v = n then Inr v
      else if length v = 1 then Inr (replicate n (hd v))
      else Inl ValueError)"

text \<open>\<^verbatim>\<open>a[:, j] = v\<close> for a vector v, and \<^verbatim>\<open>a[:, j] = x\<close> for a number x.\<close>

definition set_column :: "ndarray \<Rightarrow> nat \<Rightarrow> real list \<Rightarrow> error + ndarray" where
  "set_column a j v =
     (if ncols a \<le> j then Inl IndexError
      else and_then (broadcast v (length (rows a)))
             (\<lambda>v'. Inr (NDArray (ncols a) (map2 (\<lambda>r x. r[j := x]) (rows a) v'))))"

definition fill_column :: "ndarray \<Rightarrow> nat \<Rightarrow> real \<Rightarrow> error + ndarray" where
  "fill_column a j x =
     (if ncols a \<le> j then Inl IndexError
      else Inr (NDArray (ncols a) (map (\<lambda>r. r[j := x]) (rows a))))"

text \<open>\<^verbatim>\<open>a[:, 0:3]\<close>: slicing never raises, it keeps the columns that exist.\<close>

definition slice_columns_0_3 :: "ndarray \<Rightarrow> ndarray" where
  "slice_columns_0_3 a = NDArray (min 3 (ncols a)) (map (take 3) (rows a))"

text \<open>\<^verbatim>\<open>a[:, j]\<close>, read.\<close>

definition get_column :: "ndarray \<Rightarrow> nat \<Rightarrow> error + real list" where
  "get_column a j =
     (if ncols a \<le> j then Inl IndexError else Inr (map (\<lambda>r. r ! j) (rows a)))"

text \<open>
  The statements \<^verbatim>\<open>self.states[:, j] = v\<close> and \<^verbatim>\<open>self.states[:, j] = x\<close>: the array is
  changed in place, so afterwards the attribute holds the changed array.
\<close>

definition states_set_column :: "pyobj \<Rightarrow> nat \<Rightarrow> real list \<Rightarrow> error + pyobj" where
  "states_set_column self j v =
     and_then (getattr self ''states'') (\<lambda>s.
     and_then (as_array s) (\<lambda>a.
     and_then (set_column a j v) (\<lambda>a'.
     Inr (self(''states'' \<mapsto> PyArray a')))))"

definition states_fill_column :: "pyobj \<Rightarrow> nat \<Rightarrow> real \<Rightarrow> error + pyobj" where
  "states_fill_column self j x =
     and_then (getattr self ''states'') (\<lambda>s.
     and_then (as_array s) (\<lambda>a.
     and_then (fill_column a j x) (\<lambda>a'.
     Inr (self(''states'' \<mapsto> PyArray a')))))"

text \<open>\<^verbatim>\<open>self.states[:, j]\<close>, read from an instance.\<close>

definition states_column :: "nat \<Rightarrow> pyobj \<Rightarrow> error + real list" where
  "states_column j self =
     and_then (getattr self ''states'') (\<lambda>s.
     and_then (as_array s) (\<lambda>a. get_column a j))"


section \<open>The base classes\<close>

text \<open>
  Modelled from the spec: the constructor of \<^verbatim>\<open>States\<close> (module \<^verbatim>\<open>off.states\<close>, not
  among the sources). The spec describes a state table of exactly N rows and W columns,
  zero at creation, with the chain length N and the state width W fixed at construction.
  The attribute names \<^verbatim>\<open>states\<close> and \<^verbatim>\<open>n_time_steps\<close> are the ones the subclasses read;
  \<^verbatim>\<open>n_states\<close> holds the width.
\<close>

definition States_init :: "nat \<Rightarrow> nat \<Rightarrow> pyobj" where
  "States_init number_of_time_steps number_of_states =
     [''n_time_steps'' \<mapsto> PyInt (int number_of_time_steps),
      ''n_states'' \<mapsto> PyInt (int number_of_states),
      ''states'' \<mapsto> PyArray (zeros number_of_time_steps number_of_states)]"

text \<open>
  Modelled from the spec: \<^verbatim>\<open>States.set_all_states\<close> (module \<^verbatim>\<open>off.states\<close>, not among
  the sources). The spec: the whole-table setter validates the exact shape N by W, fails
  immediately with a shape-mismatch error otherwise, and does not mutate on failure. The
  result is the exception raised, if any, and the instance after the call.
\<close>

definition set_all_states :: "pyobj \<Rightarrow> ndarray \<Rightarrow> error option \<times> pyobj" where
  "set_all_states self table =
     (case getattr self ''n_time_steps'' of
        Inl e \<Rightarrow> (Some e, self)
      | Inr n \<Rightarrow>
          (case getattr self ''n_states'' of
             Inl e \<Rightarrow> (Some e, self)
           | Inr w \<Rightarrow>
               if n = PyInt (int (length (rows table))) \<and> w = PyInt (int (ncols table))
               then (None, self(''states'' \<mapsto> PyArray table))
               else (Some ShapeMismatch, self)))"

text \<open>
  Modelled from the spec: \<^verbatim>\<open>OFFTools.deg2rad\<close> (module \<^verbatim>\<open>off.utils\<close>, not among the
  sources). The spec: it converts the wind direction from degrees to radians.
\<close>

definition deg2rad :: "real \<Rightarrow> real" where
  "deg2rad deg = deg * pi / 180"

text \<open>\<^verbatim>\<open>ObservationPoints.__init__\<close> only calls the constructor of \<^verbatim>\<open>States\<close>.\<close>

definition ObservationPoints_init :: "nat \<Rightarrow> nat \<Rightarrow> pyobj" where
  "ObservationPoints_init number_of_time_steps number_of_states =
     States_init number_of_time_steps number_of_states"


section \<open>FLORIDynOPs4\<close>

definition FLORIDynOPs4_init :: "nat \<Rightarrow> pyobj" where
  "FLORIDynOPs4_init number_of_time_steps = ObservationPoints_init number_of_time_steps 4"

text \<open>\<^verbatim>\<open>return self.states[:, 0:3]\<close>\<close>

definition FLORIDynOPs4_get_world_coord :: "pyobj \<Rightarrow> error + ndarray" where
  "FLORIDynOPs4_get_world_coord self =
     and_then (getattr self ''states'') (\<lambda>s.
     and_then (as_array s) (\<lambda>a. Inr (slice_columns_0_3 a)))"

text \<open>
  Each right-hand side is evaluated before the attribute \<^verbatim>\<open>self.states\<close> is read, as
  Python does. The argument \<^verbatim>\<open>time_step\<close> is not used by the body. Creating the helper
  object \<^verbatim>\<open>ot = OT()\<close> has no effect on the instance and is left out.
\<close>

definition FLORIDynOPs4_init_all_states ::
  "pyobj \<Rightarrow> real \<Rightarrow> real \<Rightarrow> real list \<Rightarrow> real \<Rightarrow> error + pyobj" where
  "FLORIDynOPs4_init_all_states self wind_speed wind_direction rotor_pos time_step =
     and_then (getattr self ''n_time_steps'') (\<lambda>n.
     and_then (arange n) (\<lambda>ar.
     let dw = map (\<lambda>k. k * wind_speed) ar in
     and_then (getitem rotor_pos 0) (\<lambda>x.
     and_then (states_set_column self 0
                 (map (\<lambda>d. cos (deg2rad wind_direction) * d + x) dw)) (\<lambda>self1.
     and_then (getitem rotor_pos 1) (\<lambda>y.
     and_then (states_set_column self1 1
                 (map (\<lambda>d. sin (deg2rad wind_direction) * d + y) dw)) (\<lambda>self2.
     and_then (getitem rotor_pos 2) (\<lambda>z.
     and_then (states_fill_column self2 2 z) (\<lambda>self3.
     states_set_column self3 3 dw))))))))"


section \<open>FLORIDynOPs6\<close>

definition FLORIDynOPs6_init :: "nat \<Rightarrow> pyobj" where
  "FLORIDynOPs6_init number_of_time_steps = ObservationPoints_init number_of_time_steps 6"

text \<open>\<^verbatim>\<open>return self.op_list[:, 0:3]\<close>\<close>

definition FLORIDynOPs6_get_world_coord :: "pyobj \<Rightarrow> error + ndarray" where
  "FLORIDynOPs6_get_world_coord self =
     and_then (getattr self ''op_list'') (\<lambda>s.
     and_then (as_array s) (\<lambda>a. Inr (slice_columns_0_3 a)))"

definition FLORIDynOPs6_init_all_states ::
  "pyobj \<Rightarrow> real \<Rightarrow> real \<Rightarrow> real list \<Rightarrow> real \<Rightarrow> error + pyobj" where
  "FLORIDynOPs6_init_all_states self wind_speed wind_direction rotor_pos time_step =
     and_then (getattr self ''n_time_steps'') (\<lambda>n.
     and_then (arange n) (\<lambda>ar.
     let dw = map (\<lambda>k. k * wind_speed) ar in
     and_then (getitem rotor_pos 0) (\<lambda>x.
     and_then (states_set_column self 0
                 (map (\<lambda>d. cos (deg2rad wind_direction) * d + x) dw)) (\<lambda>self1.
     and_then (getitem rotor_pos 1) (\<lambda>y.
     and_then (states_set_column self1 1
                 (map (\<lambda>d. sin (deg2rad wind_direction) * d + y) dw)) (\<lambda>self2.
     and_then (getitem rotor_pos 2) (\<lambda>z.
     and_then (states_fill_column self2 2 z) (\<lambda>self3.
     states_set_column self3 3 dw))))))))"


section \<open>The wind farm\<close>

text \<open>
  The class attribute \<^verbatim>\<open>time_step = -1\<close> is what \<^verbatim>\<open>self.time_step\<close> reads on an
  instance until something assigns it; the constructor assigns the other two. The type
  of a turbine (module \<^verbatim>\<open>off.turbine\<close>) and of a setting stay parameters.
\<close>

record ('turbine, 'setting) windfarm =
  time_step :: int
  settings_sol :: "string \<rightharpoonup> 'setting"
  turbines :: "'turbine list"

definition WindFarm_init ::
  "'turbine list \<Rightarrow> (string \<rightharpoonup> 'setting) \<Rightarrow> ('turbine, 'setting) windfarm" where
  "WindFarm_init turbines_arg settings_arg =
     \<lparr>time_step = - 1, settings_sol = settings_arg, turbines = turbines_arg\<rparr>"


section \<open>Chains\<close>

text \<open>
  A chain of length N and width W: the attribute \<^verbatim>\<open>n_time_steps\<close> is N and the attribute
  \<^verbatim>\<open>states\<close> is an array of N rows and W columns.
\<close>

definition is_table :: "nat \<Rightarrow> nat \<Rightarrow> ndarray \<Rightarrow> bool" where
  "is_table N W a \<longleftrightarrow>
     ncols a = W \<and> length (rows a) = N \<and> list_all (\<lambda>r. length r = W) (rows a)"

definition is_chain :: "nat \<Rightarrow> nat \<Rightarrow> pyobj \<Rightarrow> bool" where
  "is_chain N W self \<longleftrightarrow>
     self ''n_time_steps'' = Some (PyInt (int N)) \<and>
     (case self ''states'' of Some (PyArray a) \<Rightarrow> is_table N W a | _ \<Rightarrow> False)"


text \<open>
  The rows that \<^verbatim>\<open>init_all_states\<close> leaves in a table with rows rs: row k gets its
  columns 0 to 3 overwritten, anything further right stays. It is used to state what
  the four column assignments do together.
\<close>

definition init_rows ::
  "real \<Rightarrow> real \<Rightarrow> real \<Rightarrow> real \<Rightarrow> real \<Rightarrow> real list list \<Rightarrow> real list list" where
  "init_rows ws wd x y z rs =
     map2 (\<lambda>r k. r[0 := cos (deg2rad wd) * (real k * ws) + x,
                   1 := sin (deg2rad wd) * (real k * ws) + y,
                   2 := z,
                   3 := real k * ws]) rs [0..<length rs]"


section \<open>Properties\<close>

lemma and_then_Inr [simp]: "and_then (Inr x) f = f x"
  by (simp add: and_then_def)

lemma and_then_Inl [simp]: "and_then (Inl e) f = Inl e"
  by (simp add: and_then_def)

subsection \<open>What the initialisation leaves in a chain\<close>

lemma init6_eq: "FLORIDynOPs6_init_all_states = FLORIDynOPs4_init_all_states"
  by (intro ext) (simp add: FLORIDynOPs6_init_all_states_def FLORIDynOPs4_init_all_states_def)

lemma is_chainE:
  assumes "is_chain N W self"
  obtains rs where "self ''n_time_steps'' = Some (PyInt (int N))"
    and "self ''states'' = Some (PyArray (NDArray W rs))"
    and "length rs = N" and "\<forall>r \<in> set rs. length r = W"
proof -
  from assms obtain a where a: "self ''states'' = Some (PyArray a)" "is_table N W a"
    and n: "self ''n_time_steps'' = Some (PyInt (int N))"
    by (auto simp: is_chain_def split: option.splits pyval.splits)
  obtain w rs where [simp]: "a = NDArray w rs" by (cases a)
  from a(2) have "w = W" "length rs = N" "\<forall>r \<in> set rs. length r = W"
    by (simp_all add: is_table_def list_all_iff)
  with a(1) n that show thesis by simp
qed

lemma states_set_column_ok:
  assumes "self ''states'' = Some (PyArray (NDArray W rs))" "j < W" "length v = length rs"
  shows "states_set_column self j v =
    Inr (self(''states'' \<mapsto> PyArray (NDArray W (map2 (\<lambda>r x. r[j := x]) rs v))))"
  using assms
  by (simp add: states_set_column_def getattr_def as_array_def set_column_def broadcast_def)

lemma states_fill_column_ok:
  assumes "self ''states'' = Some (PyArray (NDArray W rs))" "j < W"
  shows "states_fill_column self j x =
    Inr (self(''states'' \<mapsto> PyArray (NDArray W (map (\<lambda>r. r[j := x]) rs))))"
  using assms
  by (simp add: states_fill_column_def getattr_def as_array_def fill_column_def)

lemma init_rows_steps:
  "map2 (\<lambda>r x. r[3 := x])
     (map (\<lambda>r. r[2 := z])
        (map2 (\<lambda>r x. r[1 := x])
           (map2 (\<lambda>r x. r[0 := x]) rs
              (map (\<lambda>d. c * d + x) (map (\<lambda>k. k * ws) (map real [0..<length rs]))))
           (map (\<lambda>d. s * d + y) (map (\<lambda>k. k * ws) (map real [0..<length rs])))))
     (map (\<lambda>k. k * ws) (map real [0..<length rs]))
   = map2 (\<lambda>r k. r[0 := c * (real k * ws) + x, 1 := s * (real k * ws) + y,
                   2 := z, 3 := real k * ws]) rs [0..<length rs]"
  by (rule nth_equalityI) simp_all

lemma chain_init4:
  assumes n: "self ''n_time_steps'' = Some (PyInt (int (length rs)))"
    and st: "self ''states'' = Some (PyArray (NDArray W rs))"
    and W: "4 \<le> W"
  shows "FLORIDynOPs4_init_all_states self ws wd [x, y, z] ts =
     Inr (self(''states'' \<mapsto> PyArray (NDArray W (init_rows ws wd x y z rs))))"
proof -
  let ?dw = "map (\<lambda>k. k * ws) (map real [0..<length rs])"
  let ?v0 = "map (\<lambda>d. cos (deg2rad wd) * d + x) ?dw"
  let ?v1 = "map (\<lambda>d. sin (deg2rad wd) * d + y) ?dw"
  let ?r1 = "map2 (\<lambda>r x. r[0 := x]) rs ?v0"
  let ?r2 = "map2 (\<lambda>r x. r[1 := x]) ?r1 ?v1"
  let ?r3 = "map (\<lambda>r. r[2 := z]) ?r2"
  let ?r4 = "map2 (\<lambda>r x. r[3 := x]) ?r3 ?dw"
  let ?s1 = "self(''states'' \<mapsto> PyArray (NDArray W ?r1))"
  let ?s2 = "self(''states'' \<mapsto> PyArray (NDArray W ?r2))"
  let ?s3 = "self(''states'' \<mapsto> PyArray (NDArray W ?r3))"
  have a: "arange (PyInt (int (length rs))) = Inr (map real [0..<length rs])"
    by (simp add: arange_def)
  have g: "getitem [x, y, z] 0 = Inr x" "getitem [x, y, z] 1 = Inr y"
    "getitem [x, y, z] 2 = Inr z"
    by (simp_all add: getitem_def)
  have 1: "states_set_column self 0 ?v0 = Inr ?s1"
    using W st by (subst states_set_column_ok [where W = W and rs = rs]) simp_all
  have 2: "states_set_column ?s1 1 ?v1 = Inr ?s2"
    using W by (subst states_set_column_ok [where W = W and rs = ?r1]) simp_all
  have 3: "states_fill_column ?s2 2 z = Inr ?s3"
    using W by (subst states_fill_column_ok [where W = W and rs = ?r2]) simp_all
  have 4: "states_set_column ?s3 3 ?dw = Inr (self(''states'' \<mapsto> PyArray (NDArray W ?r4)))"
    using W by (subst states_set_column_ok [where W = W and rs = ?r3]) simp_all
  have "FLORIDynOPs4_init_all_states self ws wd [x, y, z] ts =
      Inr (self(''states'' \<mapsto> PyArray (NDArray W ?r4)))"
    unfolding FLORIDynOPs4_init_all_states_def Let_def
    by (simp only: getattr_def n option.case and_then_Inr a g 1 2 3 4)
  also have "?r4 = init_rows ws wd x y z rs"
    unfolding init_rows_def by (rule init_rows_steps)
  finally show ?thesis .
qed

lemma nth_init_rows:
  "k < length rs \<Longrightarrow>
   init_rows ws wd x y z rs ! k =
     (rs ! k)[0 := cos (deg2rad wd) * (real k * ws) + x,
              1 := sin (deg2rad wd) * (real k * ws) + y, 2 := z, 3 := real k * ws]"
  by (simp add: init_rows_def)

lemma length_init_rows [simp]: "length (init_rows ws wd x y z rs) = length rs"
  by (simp add: init_rows_def)

lemma row_update_nth:
  assumes "4 \<le> length r"
  shows "r[0 := a, 1 := b, 2 := c, 3 := d] ! 0 = a"
    and "r[0 := a, 1 := b, 2 := c, 3 := d] ! 1 = b"
    and "r[0 := a, 1 := b, 2 := c, 3 := d] ! 2 = c"
    and "r[0 := a, 1 := b, 2 := c, 3 := d] ! 3 = d"
proof -
  from assms have "r \<noteq> []" by auto
  with assms show "r[0 := a, 1 := b, 2 := c, 3 := d] ! 0 = a"
    and "r[0 := a, 1 := b, 2 := c, 3 := d] ! 1 = b"
    and "r[0 := a, 1 := b, 2 := c, 3 := d] ! 2 = c"
    and "r[0 := a, 1 := b, 2 := c, 3 := d] ! 3 = d"
    by (simp_all add: nth_list_update)
qed

lemma nth_init_rows_cols:
  assumes "k < length rs" "4 \<le> length (rs ! k)"
  shows "init_rows ws wd x y z rs ! k ! 0 = cos (deg2rad wd) * (real k * ws) + x"
    and "init_rows ws wd x y z rs ! k ! 1 = sin (deg2rad wd) * (real k * ws) + y"
    and "init_rows ws wd x y z rs ! k ! 2 = z"
    and "init_rows ws wd x y z rs ! k ! 3 = real k * ws"
  using assms by (simp_all only: nth_init_rows row_update_nth)

lemma column_init_rows:
  assumes "\<forall>r \<in> set rs. 4 \<le> length r"
  shows "map (\<lambda>r. r ! 0) (init_rows ws wd x y z rs) =
           map (\<lambda>k. cos (deg2rad wd) * (real k * ws) + x) [0..<length rs]"
    and "map (\<lambda>r. r ! 1) (init_rows ws wd x y z rs) =
           map (\<lambda>k. sin (deg2rad wd) * (real k * ws) + y) [0..<length rs]"
    and "map (\<lambda>r. r ! 2) (init_rows ws wd x y z rs) = replicate (length rs) z"
    and "map (\<lambda>r. r ! 3) (init_rows ws wd x y z rs) =
           map (\<lambda>k. real k * ws) [0..<length rs]"
proof -
  have len: "4 \<le> length (rs ! i)" if "i < length rs" for i
    using assms that by simp
  show "map (\<lambda>r. r ! 0) (init_rows ws wd x y z rs) =
           map (\<lambda>k. cos (deg2rad wd) * (real k * ws) + x) [0..<length rs]"
    by (rule nth_equalityI) (simp_all add: len nth_init_rows_cols nth_init_rows_cols(2) [unfolded One_nat_def])
  show "map (\<lambda>r. r ! 1) (init_rows ws wd x y z rs) =
           map (\<lambda>k. sin (deg2rad wd) * (real k * ws) + y) [0..<length rs]"
    by (rule nth_equalityI) (simp_all add: len nth_init_rows_cols nth_init_rows_cols(2) [unfolded One_nat_def])
  show "map (\<lambda>r. r ! 2) (init_rows ws wd x y z rs) = replicate (length rs) z"
    by (rule nth_equalityI) (simp_all add: len nth_init_rows_cols nth_init_rows_cols(2) [unfolded One_nat_def])
  show "map (\<lambda>r. r ! 3) (init_rows ws wd x y z rs) =
           map (\<lambda>k. real k * ws) [0..<length rs]"
    by (rule nth_equalityI) (simp_all add: len nth_init_rows_cols nth_init_rows_cols(2) [unfolded One_nat_def])
qed

lemma column_init_rows_rest:
  "4 \<le> j \<Longrightarrow> map (\<lambda>r. r ! j) (init_rows ws wd x y z rs) = map (\<lambda>r. r ! j) rs"
  by (auto intro!: nth_equalityI simp: nth_init_rows)

lemma init_rows_idem: "init_rows ws wd x y z (init_rows ws wd x y z rs) = init_rows ws wd x y z rs"
  by (rule nth_equalityI) (simp_all add: nth_init_rows list_update_swap)


lemma states_column_read:
  "self ''states'' = Some (PyArray (NDArray W rs)) \<Longrightarrow>
   states_column j self = (if W \<le> j then Inl IndexError else Inr (map (\<lambda>r. r ! j) rs))"
  by (simp add: states_column_def getattr_def as_array_def get_column_def)

lemma chain_init:
  assumes "is_chain N W self" "4 \<le> W"
  obtains rs where "self ''states'' = Some (PyArray (NDArray W rs))"
    and "length rs = N" and "\<forall>r \<in> set rs. length r = W"
    and "FLORIDynOPs4_init_all_states self ws wd [x, y, z] ts =
           Inr (self(''states'' \<mapsto> PyArray (NDArray W (init_rows ws wd x y z rs))))"
proof -
  from assms(1) obtain rs where n: "self ''n_time_steps'' = Some (PyInt (int N))"
    and st: "self ''states'' = Some (PyArray (NDArray W rs))"
    and len: "length rs = N" and w: "\<forall>r \<in> set rs. length r = W"
    by (rule is_chainE)
  from n len have "self ''n_time_steps'' = Some (PyInt (int (length rs)))" by simp
  from chain_init4 [OF this st assms(2)] st len w that show thesis by blast
qed

lemma init_columns:
  assumes "is_chain N W self" "4 \<le> W"
  shows "and_then (FLORIDynOPs4_init_all_states self ws wd [x, y, z] ts) (states_column 0) =
           Inr (map (\<lambda>k. cos (deg2rad wd) * (real k * ws) + x) [0..<N])"
    and "and_then (FLORIDynOPs4_init_all_states self ws wd [x, y, z] ts) (states_column 1) =
           Inr (map (\<lambda>k. sin (deg2rad wd) * (real k * ws) + y) [0..<N])"
    and "and_then (FLORIDynOPs4_init_all_states self ws wd [x, y, z] ts) (states_column 2) =
           Inr (replicate N z)"
    and "and_then (FLORIDynOPs4_init_all_states self ws wd [x, y, z] ts) (states_column 3) =
           Inr (map (\<lambda>k. real k * ws) [0..<N])"
    and "4 \<le> j \<Longrightarrow>
         and_then (FLORIDynOPs4_init_all_states self ws wd [x, y, z] ts) (states_column j) =
           states_column j self"
proof -
  from assms obtain rs where st: "self ''states'' = Some (PyArray (NDArray W rs))"
    and len: "length rs = N" and w: "\<forall>r \<in> set rs. length r = W"
    and run: "FLORIDynOPs4_init_all_states self ws wd [x, y, z] ts =
           Inr (self(''states'' \<mapsto> PyArray (NDArray W (init_rows ws wd x y z rs))))"
    by (rule chain_init)
  from w assms(2) have w4: "\<forall>r \<in> set rs. 4 \<le> length r" by simp
  have rd: "states_column i (self(''states'' \<mapsto> PyArray (NDArray W (init_rows ws wd x y z rs)))) =
      (if W \<le> i then Inl IndexError else Inr (map (\<lambda>r. r ! i) (init_rows ws wd x y z rs)))" for i
    by (rule states_column_read) simp
  show "and_then (FLORIDynOPs4_init_all_states self ws wd [x, y, z] ts) (states_column 0) =
           Inr (map (\<lambda>k. cos (deg2rad wd) * (real k * ws) + x) [0..<N])"
    using assms(2) len by (simp add: run rd column_init_rows(1) [OF w4])
  show "and_then (FLORIDynOPs4_init_all_states self ws wd [x, y, z] ts) (states_column 1) =
           Inr (map (\<lambda>k. sin (deg2rad wd) * (real k * ws) + y) [0..<N])"
    using assms(2) len by (simp add: run rd column_init_rows(2) [OF w4, unfolded One_nat_def])
  show "and_then (FLORIDynOPs4_init_all_states self ws wd [x, y, z] ts) (states_column 2) =
           Inr (replicate N z)"
    using assms(2) len by (simp add: run rd column_init_rows(3) [OF w4])
  show "and_then (FLORIDynOPs4_init_all_states self ws wd [x, y, z] ts) (states_column 3) =
           Inr (map (\<lambda>k. real k * ws) [0..<N])"
    using assms(2) len by (simp add: run rd column_init_rows(4) [OF w4])
  show "and_then (FLORIDynOPs4_init_all_states self ws wd [x, y, z] ts) (states_column j) =
           states_column j self" if "4 \<le> j"
    using that st
    by (simp add: run rd states_column_read [where self = self and W = W and rs = rs]
        column_init_rows_rest)
qed

lemma is_chain_States_init: "is_chain N W (States_init N W)"
  by (simp add: is_chain_def is_table_def States_init_def zeros_def list_all_iff)

lemma is_chain_FLORIDynOPs4_init: "is_chain N 4 (FLORIDynOPs4_init N)"
  by (simp add: FLORIDynOPs4_init_def ObservationPoints_init_def is_chain_States_init)

lemma is_chain_FLORIDynOPs6_init: "is_chain N 6 (FLORIDynOPs6_init N)"
  by (simp add: FLORIDynOPs6_init_def ObservationPoints_init_def is_chain_States_init)

lemma upt_5: "[0..<5] = [0, 1, 2, 3, 4]"
  by (simp add: upt_rec)

lemma deg2rad_0: "cos (deg2rad 0) = 1" "sin (deg2rad 0) = 0"
  by (simp_all add: deg2rad_def)

lemma variant_init:
  assumes "(init = FLORIDynOPs4_init_all_states \<and> W = 4) \<or>
           (init = FLORIDynOPs6_init_all_states \<and> W = 6)"
  shows "init = FLORIDynOPs4_init_all_states" and "4 \<le> (W::nat)"
  using assms by (auto simp: init6_eq)

text \<open>
  \<^verbatim>\<open>FLORIDynOPs4.get_world_coord\<close> on a chain of length N: the result is the columns
  0, 1, 2 of the state table, N rows of 3 entries.
\<close>

lemma FLORIDynOPs4_get_world_coord_chain:
  assumes "is_chain N 4 self"
  shows "\<exists>rs. self ''states'' = Some (PyArray (NDArray 4 rs)) \<and>
     FLORIDynOPs4_get_world_coord self = Inr (NDArray 3 (map (take 3) rs)) \<and>
     is_table N 3 (NDArray 3 (map (take 3) rs))"
proof -
  from assms obtain rs where st: "self ''states'' = Some (PyArray (NDArray 4 rs))"
    and len: "length rs = N" and w: "\<forall>r \<in> set rs. length r = 4"
    by (rule is_chainE)
  have "FLORIDynOPs4_get_world_coord self = Inr (NDArray 3 (map (take 3) rs))"
    by (simp add: FLORIDynOPs4_get_world_coord_def getattr_def st as_array_def
        slice_columns_0_3_def)
  moreover have "is_table N 3 (NDArray 3 (map (take 3) rs))"
    using len w by (simp add: is_table_def list_all_iff)
  ultimately show ?thesis using st by blast
qed


subsection \<open>The claims\<close>

text \<open>
  C1. \<^verbatim>\<open>get_world_coord\<close> should return the columns 0, 1, 2 of the state table for both
  variants. The 6-state variant reads the attribute \<^verbatim>\<open>op_list\<close>, which nothing assigns
  (the 4-state variant and both \<^verbatim>\<open>init_all_states\<close> use \<^verbatim>\<open>states\<close>): on a chain of any
  length, fresh or initialised, the call raises \<^verbatim>\<open>AttributeError\<close>. On any instance
  whatever, its outcome is the same for every value of the attribute \<^verbatim>\<open>states\<close>.
\<close>

theorem FLORIDynOPs6_get_world_coord_raises:
  "FLORIDynOPs6_get_world_coord (FLORIDynOPs6_init N) = Inl (AttributeError ''op_list'') \<and>
   and_then (FLORIDynOPs6_init_all_states (FLORIDynOPs6_init N) ws wd [x, y, z] ts)
     FLORIDynOPs6_get_world_coord = Inl (AttributeError ''op_list'') \<and>
   FLORIDynOPs6_get_world_coord (self(''states'' \<mapsto> v)) = FLORIDynOPs6_get_world_coord self"
proof -
  have 3: "FLORIDynOPs6_get_world_coord (self(''states'' \<mapsto> v)) =
      FLORIDynOPs6_get_world_coord self"
    by (simp add: FLORIDynOPs6_get_world_coord_def getattr_def)
  have a: "FLORIDynOPs6_init N ''op_list'' = None"
    by (simp add: FLORIDynOPs6_init_def ObservationPoints_init_def States_init_def)
  have 1: "FLORIDynOPs6_get_world_coord (FLORIDynOPs6_init N) = Inl (AttributeError ''op_list'')"
    by (simp add: FLORIDynOPs6_get_world_coord_def getattr_def a)
  obtain rs where "FLORIDynOPs4_init_all_states (FLORIDynOPs6_init N) ws wd [x, y, z] ts =
      Inr ((FLORIDynOPs6_init N)(''states'' \<mapsto> PyArray (NDArray 6 (init_rows ws wd x y z rs))))"
    by (rule chain_init [OF is_chain_FLORIDynOPs6_init, of N]) simp_all
  then have 2: "and_then (FLORIDynOPs6_init_all_states (FLORIDynOPs6_init N) ws wd [x, y, z] ts)
     FLORIDynOPs6_get_world_coord = Inl (AttributeError ''op_list'')"
    by (simp add: init6_eq FLORIDynOPs6_get_world_coord_def getattr_def a)
  from 1 2 3 show ?thesis by (intro conjI)
qed




text \<open>
  C3. A chain of the 4-state variant with N = 5, initialised with wind speed 8, wind
  direction 0, rotor position (100, 200, 50) and time step 1: column 0 is
  100, 108, 116, 124, 132, column 1 is 200 five times, column 2 is 50 five times and
  column 3 is 0, 8, 16, 24, 32.
\<close>

theorem FLORIDynOPs4_scenario_N5:
  "and_then (FLORIDynOPs4_init_all_states (FLORIDynOPs4_init 5) 8 0 [100, 200, 50] 1)
     (states_column 0) = Inr [100, 108, 116, 124, 132] \<and>
   and_then (FLORIDynOPs4_init_all_states (FLORIDynOPs4_init 5) 8 0 [100, 200, 50] 1)
     (states_column 1) = Inr [200, 200, 200, 200, 200] \<and>
   and_then (FLORIDynOPs4_init_all_states (FLORIDynOPs4_init 5) 8 0 [100, 200, 50] 1)
     (states_column 2) = Inr [50, 50, 50, 50, 50] \<and>
   and_then (FLORIDynOPs4_init_all_states (FLORIDynOPs4_init 5) 8 0 [100, 200, 50] 1)
     (states_column 3) = Inr [0, 8, 16, 24, 32]"
proof -
  have c: "is_chain 5 4 (FLORIDynOPs4_init 5)"
    by (rule is_chain_FLORIDynOPs4_init)
  note cols = init_columns(1-4) [OF c order_refl, of 8 0 100 200 50 1]
  have 0: "and_then (FLORIDynOPs4_init_all_states (FLORIDynOPs4_init 5) 8 0 [100, 200, 50] 1)
     (states_column 0) = Inr [100, 108, 116, 124, 132]"
    using cols(1) by (simp add: deg2rad_0 upt_5)
  have 1: "and_then (FLORIDynOPs4_init_all_states (FLORIDynOPs4_init 5) 8 0 [100, 200, 50] 1)
     (states_column 1) = Inr [200, 200, 200, 200, 200]"
    using cols(2) by (simp add: deg2rad_0 upt_5)
  have 2: "and_then (FLORIDynOPs4_init_all_states (FLORIDynOPs4_init 5) 8 0 [100, 200, 50] 1)
     (states_column 2) = Inr [50, 50, 50, 50, 50]"
    using cols(3) by (simp add: numeral_eq_Suc)
  have 3: "and_then (FLORIDynOPs4_init_all_states (FLORIDynOPs4_init 5) 8 0 [100, 200, 50] 1)
     (states_column 3) = Inr [0, 8, 16, 24, 32]"
    using cols(4) by (simp add: upt_5)
  from 0 1 2 3 show ?thesis by (intro conjI)
qed

text \<open>
  C6. Neither variant's \<^verbatim>\<open>init_all_states\<close> depends on its argument \<^verbatim>\<open>time_step\<close>: with
  all other arguments and the instance equal, any two values of it give the same outcome
  and the same state table.
\<close>

theorem init_all_states_ignores_time_step:
  "FLORIDynOPs4_init_all_states self wind_speed wind_direction rotor_pos t1 =
     FLORIDynOPs4_init_all_states self wind_speed wind_direction rotor_pos t2 \<and>
   FLORIDynOPs6_init_all_states self wind_speed wind_direction rotor_pos t1 =
     FLORIDynOPs6_init_all_states self wind_speed wind_direction rotor_pos t2"
  by (simp add: FLORIDynOPs4_init_all_states_def FLORIDynOPs6_init_all_states_def)

text \<open>
  C7. \<^verbatim>\<open>init_all_states\<close> is idempotent, for either variant: on every chain the call
  returns an instance, and a second call with the same arguments on that instance
  returns that very instance again.
\<close>

theorem init_all_states_idempotent:
  assumes "(init = FLORIDynOPs4_init_all_states \<and> W = 4) \<or>
           (init = FLORIDynOPs6_init_all_states \<and> W = 6)"
    and "is_chain N W self"
  shows "\<exists>s'. init self wind_speed wind_direction [x, y, z] ts = Inr s' \<and>
              init s' wind_speed wind_direction [x, y, z] ts = Inr s'"
proof -
  from assms(1) have i: "init = FLORIDynOPs4_init_all_states" and W: "4 \<le> W"
    by (rule variant_init)+
  from assms(2) obtain rs where n: "self ''n_time_steps'' = Some (PyInt (int N))"
    and st: "self ''states'' = Some (PyArray (NDArray W rs))"
    and len: "length rs = N"
    by (rule is_chainE)
  let ?rs' = "init_rows wind_speed wind_direction x y z rs"
  let ?s' = "self(''states'' \<mapsto> PyArray (NDArray W ?rs'))"
  from n len have n1: "self ''n_time_steps'' = Some (PyInt (int (length rs)))" by simp
  have 1: "FLORIDynOPs4_init_all_states self wind_speed wind_direction [x, y, z] ts = Inr ?s'"
    by (rule chain_init4 [OF n1 st W])
  from n len have n2: "?s' ''n_time_steps'' = Some (PyInt (int (length ?rs')))" by simp
  have st2: "?s' ''states'' = Some (PyArray (NDArray W ?rs'))" by simp
  have "FLORIDynOPs4_init_all_states ?s' wind_speed wind_direction [x, y, z] ts =
      Inr (?s'(''states'' \<mapsto> PyArray (NDArray W
        (init_rows wind_speed wind_direction x y z ?rs'))))"
    by (rule chain_init4 [OF n2 st2 W])
  then have 2: "FLORIDynOPs4_init_all_states ?s' wind_speed wind_direction [x, y, z] ts = Inr ?s'"
    by (simp add: init_rows_idem)
  from 1 2 show ?thesis unfolding i by blast
qed

theorem init_all_states_idempotent_witness:
  "is_chain 2 4 (FLORIDynOPs4_init 2) \<and>
   (\<exists>s'. FLORIDynOPs4_init_all_states (FLORIDynOPs4_init 2) 8 30 [100, 200, 50] 1 = Inr s' \<and>
         FLORIDynOPs4_init_all_states s' 8 30 [100, 200, 50] 1 = Inr s')"
proof -
  have v: "(FLORIDynOPs4_init_all_states = FLORIDynOPs4_init_all_states \<and> (4::nat) = 4) \<or>
           (FLORIDynOPs4_init_all_states = FLORIDynOPs6_init_all_states \<and> (4::nat) = 6)"
    by simp
  have c: "is_chain 2 4 (FLORIDynOPs4_init 2)"
    by (rule is_chain_FLORIDynOPs4_init)
  from init_all_states_idempotent [OF v c, of 8 30 100 200 50 1] c show ?thesis
    by simp
qed

text \<open>
  C8. On an instance of chain length N and state width W, \<^verbatim>\<open>set_all_states\<close> with a
  table whose shape is not N by W (N by W + 1 in the witness) fails with the
  shape-mismatch error and leaves the instance, its state table included, as it was.
\<close>

theorem set_all_states_shape_mismatch:
  assumes "self ''n_time_steps'' = Some (PyInt (int N))"
    and "self ''n_states'' = Some (PyInt (int W))"
    and "length (rows table) \<noteq> N \<or> ncols table \<noteq> W"
  shows "set_all_states self table = (Some ShapeMismatch, self)"
  using assms by (auto simp: set_all_states_def getattr_def)

theorem set_all_states_shape_mismatch_witness:
  "FLORIDynOPs4_init 2 ''n_time_steps'' = Some (PyInt (int 2)) \<and>
   FLORIDynOPs4_init 2 ''n_states'' = Some (PyInt (int 4)) \<and>
   length (rows (zeros 2 5)) = 2 \<and> ncols (zeros 2 5) = 4 + 1 \<and>
   set_all_states (FLORIDynOPs4_init 2) (zeros 2 5) = (Some ShapeMismatch, FLORIDynOPs4_init 2)"
proof -
  have n: "FLORIDynOPs4_init 2 ''n_time_steps'' = Some (PyInt (int 2))"
    and w: "FLORIDynOPs4_init 2 ''n_states'' = Some (PyInt (int 4))"
    by (simp_all add: FLORIDynOPs4_init_def ObservationPoints_init_def States_init_def)
  have t: "length (rows (zeros 2 5)) = 2" "ncols (zeros 2 5) = 4 + 1"
    by (simp_all add: zeros_def)
  then have m: "length (rows (zeros 2 5)) \<noteq> 2 \<or> ncols (zeros 2 5) \<noteq> 4" by simp
  from set_all_states_shape_mismatch [OF n w m] n w t show ?thesis by (intro conjI)
qed

text \<open>
  C9. Constructing a wind farm stores exactly the given turbine list and settings
  mapping, and its time-step counter reads the unset sentinel -1.
\<close>

theorem WindFarm_init_stores:
  "turbines (WindFarm_init ts ss) = ts \<and>
   settings_sol (WindFarm_init ts ss) = ss \<and>
   time_step (WindFarm_init ts ss) = - 1"
  by (simp add: WindFarm_init_def)

text \<open>
  C10. On a 4-state chain and a 6-state chain of the same length N, with the same
  arguments, both \<^verbatim>\<open>init_all_states\<close> return and leave the same values in each of the
  columns 0, 1, 2 and 3.
\<close>

theorem variants_agree_on_columns_0_to_3:
  assumes "is_chain N 4 self4" and "is_chain N 6 self6"
  shows "\<exists>c0 c1 c2 c3.
     and_then (FLORIDynOPs4_init_all_states self4 wind_speed wind_direction [x, y, z] ts)
       (states_column 0) = Inr c0 \<and>
     and_then (FLORIDynOPs6_init_all_states self6 wind_speed wind_direction [x, y, z] ts)
       (states_column 0) = Inr c0 \<and>
     and_then (FLORIDynOPs4_init_all_states self4 wind_speed wind_direction [x, y, z] ts)
       (states_column 1) = Inr c1 \<and>
     and_then (FLORIDynOPs6_init_all_states self6 wind_speed wind_direction [x, y, z] ts)
       (states_column 1) = Inr c1 \<and>
     and_then (FLORIDynOPs4_init_all_states self4 wind_speed wind_direction [x, y, z] ts)
       (states_column 2) = Inr c2 \<and>
     and_then (FLORIDynOPs6_init_all_states self6 wind_speed wind_direction [x, y, z] ts)
       (states_column 2) = Inr c2 \<and>
     and_then (FLORIDynOPs4_init_all_states self4 wind_speed wind_direction [x, y, z] ts)
       (states_column 3) = Inr c3 \<and>
     and_then (FLORIDynOPs6_init_all_states self6 wind_speed wind_direction [x, y, z] ts)
       (states_column 3) = Inr c3"
proof -
  have w4: "4 \<le> (4::nat)" and w6: "4 \<le> (6::nat)" by simp_all
  note a = init_columns(1-4) [OF assms(1) w4, of wind_speed wind_direction x y z ts]
  note b = init_columns(1-4) [OF assms(2) w6, of wind_speed wind_direction x y z ts]
  from a b show ?thesis unfolding init6_eq by blast
qed

theorem variants_agree_on_columns_0_to_3_witness:
  "is_chain 2 4 (FLORIDynOPs4_init 2) \<and> is_chain 2 6 (FLORIDynOPs6_init 2) \<and>
   (\<exists>c0 c1 c2 c3.
     and_then (FLORIDynOPs4_init_all_states (FLORIDynOPs4_init 2) 8 30 [100, 200, 50] 1)
       (states_column 0) = Inr c0 \<and>
     and_then (FLORIDynOPs6_init_all_states (FLORIDynOPs6_init 2) 8 30 [100, 200, 50] 1)
       (states_column 0) = Inr c0 \<and>
     and_then (FLORIDynOPs4_init_all_states (FLORIDynOPs4_init 2) 8 30 [100, 200, 50] 1)
       (states_column 1) = Inr c1 \<and>
     and_then (FLORIDynOPs6_init_all_states (FLORIDynOPs6_init 2) 8 30 [100, 200, 50] 1)
       (states_column 1) = Inr c1 \<and>
     and_then (FLORIDynOPs4_init_all_states (FLORIDynOPs4_init 2) 8 30 [100, 200, 50] 1)
       (states_column 2) = Inr c2 \<and>
     and_then (FLORIDynOPs6_init_all_states (FLORIDynOPs6_init 2) 8 30 [100, 200, 50] 1)
       (states_column 2) = Inr c2 \<and>
     and_then (FLORIDynOPs4_init_all_states (FLORIDynOPs4_init 2) 8 30 [100, 200, 50] 1)
       (states_column 3) = Inr c3 \<and>
     and_then (FLORIDynOPs6_init_all_states (FLORIDynOPs6_init 2) 8 30 [100, 200, 50] 1)
       (states_column 3) = Inr c3)"
proof -
  have c4: "is_chain 2 4 (FLORIDynOPs4_init 2)"
    by (rule is_chain_FLORIDynOPs4_init)
  have c6: "is_chain 2 6 (FLORIDynOPs6_init 2)"
    by (rule is_chain_FLORIDynOPs6_init)
  from variants_agree_on_columns_0_to_3 [OF c4 c6, of 8 30 100 200 50 1] c4 c6
  show ?thesis by (intro conjI)
qed

end
